theory Spec2Isabelle
  imports Main "HOL-Library.Word"
begin

unbundle bit_operations_syntax

section \<open>Instruction selection: flags continuations, covering, liveness, shuffles\<close>

text \<open>
  A shallow embedding of \<^verbatim>\<open>src/compiler/backend/instruction-selector.h\<close>.
  A C++ member \<^verbatim>\<open>mode_\<close> is the record field \<open>mode_'\<close> (a name cannot end in an
  underscore). A \<^verbatim>\<open>DCHECK\<close> is modelled as it behaves in a checked build: when its
  condition is false the function stops with \<open>Inl DcheckFailed\<close>; every function that
  contains one returns \<open>error + 'a\<close>.
\<close>

subsection \<open>Types the header uses\<close>

datatype error = DcheckFailed | Unreachable

text \<open>
  Modelled from the spec: the enumeration \<^verbatim>\<open>FlagsMode\<close> is declared in
  \<^verbatim>\<open>instruction-codes.h\<close>, which is not among the sources. The spec: "a tagged variant
  over modes {None, Branch, ConditionalBranch, Deoptimize, Set, Trap, ConditionalTrap,
  Select}"; the constructors are the eight names the header uses for them.
\<close>

datatype FlagsMode =
    kFlags_none
  | kFlags_branch
  | kFlags_conditional_branch
  | kFlags_deoptimize
  | kFlags_set
  | kFlags_trap
  | kFlags_conditional_trap
  | kFlags_select

text \<open>
  Modelled from the spec: the enumeration \<^verbatim>\<open>FlagsCondition\<close> is declared in
  \<^verbatim>\<open>instruction-codes.h\<close>, which is not among the sources. The model has the ten
  conditions that the header names: equality, and the signed and unsigned orderings.
\<close>

datatype FlagsCondition =
    kEqual
  | kNotEqual
  | kSignedLessThan
  | kSignedGreaterThanOrEqual
  | kSignedLessThanOrEqual
  | kSignedGreaterThan
  | kUnsignedLessThan
  | kUnsignedGreaterThanOrEqual
  | kUnsignedLessThanOrEqual
  | kUnsignedGreaterThan

text \<open>
  Modelled from the spec: \<^verbatim>\<open>NegateFlagsCondition\<close> is not among the sources. The spec:
  Negate "flips the condition to its logical complement (e.g., less-than <-> greater-or-equal)".
\<close>

fun NegateFlagsCondition :: "FlagsCondition \<Rightarrow> FlagsCondition" where
  "NegateFlagsCondition kEqual = kNotEqual"
| "NegateFlagsCondition kNotEqual = kEqual"
| "NegateFlagsCondition kSignedLessThan = kSignedGreaterThanOrEqual"
| "NegateFlagsCondition kSignedGreaterThanOrEqual = kSignedLessThan"
| "NegateFlagsCondition kSignedLessThanOrEqual = kSignedGreaterThan"
| "NegateFlagsCondition kSignedGreaterThan = kSignedLessThanOrEqual"
| "NegateFlagsCondition kUnsignedLessThan = kUnsignedGreaterThanOrEqual"
| "NegateFlagsCondition kUnsignedGreaterThanOrEqual = kUnsignedLessThan"
| "NegateFlagsCondition kUnsignedLessThanOrEqual = kUnsignedGreaterThan"
| "NegateFlagsCondition kUnsignedGreaterThan = kUnsignedLessThanOrEqual"

text \<open>
  Modelled from the spec: \<^verbatim>\<open>CommuteFlagsCondition\<close> is not among the sources. The spec:
  Commute "rewrites the condition to its operand-swapped equivalent (e.g., less-than ->
  greater-than) when operand order is exchanged".
\<close>

fun CommuteFlagsCondition :: "FlagsCondition \<Rightarrow> FlagsCondition" where
  "CommuteFlagsCondition kEqual = kEqual"
| "CommuteFlagsCondition kNotEqual = kNotEqual"
| "CommuteFlagsCondition kSignedLessThan = kSignedGreaterThan"
| "CommuteFlagsCondition kSignedGreaterThanOrEqual = kSignedLessThanOrEqual"
| "CommuteFlagsCondition kSignedLessThanOrEqual = kSignedGreaterThanOrEqual"
| "CommuteFlagsCondition kSignedGreaterThan = kSignedLessThan"
| "CommuteFlagsCondition kUnsignedLessThan = kUnsignedGreaterThan"
| "CommuteFlagsCondition kUnsignedGreaterThanOrEqual = kUnsignedLessThanOrEqual"
| "CommuteFlagsCondition kUnsignedLessThanOrEqual = kUnsignedGreaterThanOrEqual"
| "CommuteFlagsCondition kUnsignedGreaterThan = kUnsignedLessThan"

text \<open>
  Modelled from the spec: \<^verbatim>\<open>turboshaft::OpIndex\<close> is declared outside the sources. The
  spec: nodes have "a stable integer identity", and a deoptimizing continuation may be
  "missing its required frame-state reference". An index is either invalid or names an
  operation; \<^verbatim>\<open>valid()\<close> tells the two apart. \<^verbatim>\<open>V<FrameState>\<close> and
  \<^verbatim>\<open>OptionalV<FrameState>\<close> are typed views of the same index.
\<close>

datatype OpIndex = Invalid | Op nat

fun valid :: "OpIndex \<Rightarrow> bool" where
  "valid Invalid = False"
| "valid (Op n) = True"

text \<open>\<^verbatim>\<open>OptionalV::value_or_invalid()\<close>: the index, or the invalid one when there is none.\<close>

fun value_or_invalid :: "OpIndex option \<Rightarrow> OpIndex" where
  "value_or_invalid None = Invalid"
| "value_or_invalid (Some i) = i"

text \<open>A \<^verbatim>\<open>turboshaft::Block*\<close>: \<open>None\<close> is the null pointer.\<close>

type_synonym Block_ptr = "nat option"

text \<open>
  \<^verbatim>\<open>InstructionCode\<close> is a 32-bit opcode word. The deoptimization reason, the feedback
  source and the trap id are declared outside the sources; the header only stores and
  returns them, so any type of values will do.
\<close>

type_synonym InstructionCode = "32 word"
type_synonym DeoptimizeReason = nat
type_synonym FeedbackSource = nat
type_synonym TrapId = nat

text \<open>
  Modelled from the spec: \<^verbatim>\<open>BranchHint\<close> is declared outside the sources. The spec: a
  Branch continuation carries a "branch-hint"; the header names \<^verbatim>\<open>BranchHint::kNone\<close>,
  the absence of a hint, beside which a branch is hinted taken or not taken.
\<close>

datatype BranchHint = BranchHint_kNone | BranchHint_kTrue | BranchHint_kFalse

subsection \<open>The conditional-compare chain\<close>

record ConditionalCompare =
  code :: InstructionCode
  compare_condition :: FlagsCondition
  default_flags :: FlagsCondition
  lhs :: OpIndex
  rhs :: OpIndex

definition kMaxCompareChainSize :: nat where
  "kMaxCompareChainSize = 4"

text \<open>
  \<^verbatim>\<open>std::array<ConditionalCompare, kMaxCompareChainSize>\<close>: exactly that many entries,
  neither more nor fewer.
\<close>

typedef compare_chain_t = "{xs :: ConditionalCompare list. length xs = kMaxCompareChainSize}"
  by (rule exI [of _ "replicate kMaxCompareChainSize
        \<lparr>code = 0, compare_condition = kEqual, default_flags = kEqual,
         lhs = Invalid, rhs = Invalid\<rparr>"]) simp

text \<open>\<^verbatim>\<open>std::array::front()\<close>; the array is never empty.\<close>

definition front :: "compare_chain_t \<Rightarrow> ConditionalCompare" where
  "front cs = hd (Rep_compare_chain_t cs)"

subsection \<open>FlagsContinuation\<close>

record FlagsContinuation =
  mode_' :: FlagsMode
  condition_' :: FlagsCondition
  final_condition_' :: FlagsCondition
  num_conditional_compares_' :: "32 word"
  compares_' :: compare_chain_t
  reason_' :: DeoptimizeReason
  node_id_' :: "32 word"
  feedback_' :: FeedbackSource
  frame_state_or_result_' :: OpIndex
  true_block_' :: Block_ptr
  false_block_' :: Block_ptr
  trap_id_' :: TrapId
  true_value_' :: OpIndex
  false_value_' :: OpIndex
  hint_' :: BranchHint

text \<open>
  A C++ constructor leaves the members it does not name uninitialised, except \<open>hint_'\<close>,
  whose default member initialiser is \<^verbatim>\<open>BranchHint::kNone\<close>. Each constructor of the model
  takes the storage \<open>u\<close> it is run on, whose fields stand for those indeterminate values,
  and overwrites what the C++ constructor initialises.
\<close>

definition storage :: "FlagsContinuation \<Rightarrow> FlagsContinuation" where
  "storage u = u\<lparr>hint_' := BranchHint_kNone\<rparr>"

text \<open>\<^verbatim>\<open>FlagsContinuation() : mode_(kFlags_none) {}\<close>\<close>

definition FlagsContinuation_default :: "FlagsContinuation \<Rightarrow> FlagsContinuation" where
  "FlagsContinuation_default u = (storage u)\<lparr>mode_' := kFlags_none\<rparr>"

text \<open>The private constructors, in the order of the header.\<close>

definition ctor_branch ::
  "FlagsContinuation \<Rightarrow> FlagsMode \<Rightarrow> FlagsCondition \<Rightarrow> Block_ptr \<Rightarrow> Block_ptr
   \<Rightarrow> error + FlagsContinuation" where
  "ctor_branch u mode condition true_block false_block =
     (if mode \<noteq> kFlags_branch then Inl DcheckFailed
      else if true_block = None then Inl DcheckFailed
      else if false_block = None then Inl DcheckFailed
      else Inr ((storage u)\<lparr>mode_' := mode, condition_' := condition,
                  true_block_' := true_block, false_block_' := false_block\<rparr>))"

definition ctor_hinted_branch ::
  "FlagsContinuation \<Rightarrow> FlagsMode \<Rightarrow> FlagsCondition \<Rightarrow> Block_ptr \<Rightarrow> Block_ptr \<Rightarrow> BranchHint
   \<Rightarrow> error + FlagsContinuation" where
  "ctor_hinted_branch u mode condition true_block false_block hint =
     (if mode \<noteq> kFlags_branch then Inl DcheckFailed
      else if true_block = None then Inl DcheckFailed
      else if false_block = None then Inl DcheckFailed
      else Inr ((storage u)\<lparr>mode_' := mode, condition_' := condition,
                  true_block_' := true_block, false_block_' := false_block,
                  hint_' := hint\<rparr>))"


definition ctor_deoptimize ::
  "FlagsContinuation \<Rightarrow> FlagsMode \<Rightarrow> FlagsCondition \<Rightarrow> DeoptimizeReason \<Rightarrow> 32 word
   \<Rightarrow> FeedbackSource \<Rightarrow> OpIndex \<Rightarrow> error + FlagsContinuation" where
  "ctor_deoptimize u mode condition reason node_id feedback frame_state =
     (if mode \<noteq> kFlags_deoptimize then Inl DcheckFailed
      else Inr ((storage u)\<lparr>mode_' := mode, condition_' := condition, reason_' := reason,
                  node_id_' := node_id, feedback_' := feedback,
                  frame_state_or_result_' := frame_state\<rparr>))"

definition ctor_set ::
  "FlagsContinuation \<Rightarrow> FlagsCondition \<Rightarrow> OpIndex \<Rightarrow> error + FlagsContinuation" where
  "ctor_set u condition result =
     (if \<not> valid result then Inl DcheckFailed
      else Inr ((storage u)\<lparr>mode_' := kFlags_set, condition_' := condition,
                  frame_state_or_result_' := result\<rparr>))"

definition ctor_trap ::
  "FlagsContinuation \<Rightarrow> FlagsCondition \<Rightarrow> TrapId \<Rightarrow> FlagsContinuation" where
  "ctor_trap u condition trap_id =
     (storage u)\<lparr>mode_' := kFlags_trap, condition_' := condition, trap_id_' := trap_id\<rparr>"

definition ctor_conditional_trap ::
  "FlagsContinuation \<Rightarrow> compare_chain_t \<Rightarrow> 32 word \<Rightarrow> FlagsCondition \<Rightarrow> TrapId
   \<Rightarrow> FlagsContinuation" where
  "ctor_conditional_trap u compares num_conditional_compares condition trap_id =
     (storage u)\<lparr>mode_' := kFlags_conditional_trap,
                 condition_' := compare_condition (front compares),
                 final_condition_' := condition,
                 num_conditional_compares_' := num_conditional_compares,
                 compares_' := compares,
                 trap_id_' := trap_id\<rparr>"

definition ctor_select ::
  "FlagsContinuation \<Rightarrow> FlagsCondition \<Rightarrow> OpIndex \<Rightarrow> OpIndex \<Rightarrow> OpIndex
   \<Rightarrow> error + FlagsContinuation" where
  "ctor_select u condition result true_value false_value =
     (if \<not> valid result then Inl DcheckFailed
      else if \<not> valid true_value then Inl DcheckFailed
      else if \<not> valid false_value then Inl DcheckFailed
      else Inr ((storage u)\<lparr>mode_' := kFlags_select, condition_' := condition,
                  frame_state_or_result_' := result,
                  true_value_' := true_value, false_value_' := false_value\<rparr>))"

text \<open>The public factories.\<close>

definition ForBranch ::
  "FlagsContinuation \<Rightarrow> FlagsCondition \<Rightarrow> Block_ptr \<Rightarrow> Block_ptr \<Rightarrow> error + FlagsContinuation" where
  "ForBranch u condition true_block false_block =
     ctor_branch u kFlags_branch condition true_block false_block"

definition ForHintedBranch ::
  "FlagsContinuation \<Rightarrow> FlagsCondition \<Rightarrow> Block_ptr \<Rightarrow> Block_ptr \<Rightarrow> BranchHint
   \<Rightarrow> error + FlagsContinuation" where
  "ForHintedBranch u condition true_block false_block hint =
     ctor_hinted_branch u kFlags_branch condition true_block false_block hint"


definition ForDeoptimize ::
  "FlagsContinuation \<Rightarrow> FlagsCondition \<Rightarrow> DeoptimizeReason \<Rightarrow> 32 word \<Rightarrow> FeedbackSource
   \<Rightarrow> OpIndex \<Rightarrow> error + FlagsContinuation" where
  "ForDeoptimize u condition reason node_id feedback frame_state =
     (if \<not> valid frame_state then Inl DcheckFailed
      else ctor_deoptimize u kFlags_deoptimize condition reason node_id feedback frame_state)"

definition ForDeoptimizeForTesting ::
  "FlagsContinuation \<Rightarrow> FlagsCondition \<Rightarrow> DeoptimizeReason \<Rightarrow> 32 word \<Rightarrow> FeedbackSource
   \<Rightarrow> OpIndex option \<Rightarrow> error + FlagsContinuation" where
  "ForDeoptimizeForTesting u condition reason node_id feedback frame_state =
     ctor_deoptimize u kFlags_deoptimize condition reason node_id feedback
       (value_or_invalid frame_state)"

definition ForSet ::
  "FlagsContinuation \<Rightarrow> FlagsCondition \<Rightarrow> OpIndex \<Rightarrow> error + FlagsContinuation" where
  "ForSet u condition result = ctor_set u condition result"

definition ForConditionalTrap ::
  "FlagsContinuation \<Rightarrow> compare_chain_t \<Rightarrow> 32 word \<Rightarrow> FlagsCondition \<Rightarrow> TrapId
   \<Rightarrow> FlagsContinuation" where
  "ForConditionalTrap u compares num_conditional_compares condition trap_id =
     ctor_conditional_trap u compares num_conditional_compares condition trap_id"

definition ForTrap :: "FlagsContinuation \<Rightarrow> FlagsCondition \<Rightarrow> TrapId \<Rightarrow> FlagsContinuation" where
  "ForTrap u condition trap_id = ctor_trap u condition trap_id"

definition ForSelect ::
  "FlagsContinuation \<Rightarrow> FlagsCondition \<Rightarrow> OpIndex \<Rightarrow> OpIndex \<Rightarrow> OpIndex
   \<Rightarrow> error + FlagsContinuation" where
  "ForSelect u condition result true_value false_value =
     ctor_select u condition result true_value false_value"

text \<open>The mode tests.\<close>

definition IsNone :: "FlagsContinuation \<Rightarrow> bool" where
  "IsNone c = (mode_' c = kFlags_none)"

definition IsBranch :: "FlagsContinuation \<Rightarrow> bool" where
  "IsBranch c = (mode_' c = kFlags_branch)"

definition IsConditionalBranch :: "FlagsContinuation \<Rightarrow> bool" where
  "IsConditionalBranch c = (mode_' c = kFlags_conditional_branch)"

definition IsDeoptimize :: "FlagsContinuation \<Rightarrow> bool" where
  "IsDeoptimize c = (mode_' c = kFlags_deoptimize)"

definition IsSet :: "FlagsContinuation \<Rightarrow> bool" where
  "IsSet c = (mode_' c = kFlags_set)"

definition IsTrap :: "FlagsContinuation \<Rightarrow> bool" where
  "IsTrap c = (mode_' c = kFlags_trap)"

definition IsConditionalTrap :: "FlagsContinuation \<Rightarrow> bool" where
  "IsConditionalTrap c = (mode_' c = kFlags_conditional_trap)"

definition IsSelect :: "FlagsContinuation \<Rightarrow> bool" where
  "IsSelect c = (mode_' c = kFlags_select)"

text \<open>The accessors: each is its \<^verbatim>\<open>DCHECK\<close> followed by the read of the member.\<close>

definition condition :: "FlagsContinuation \<Rightarrow> error + FlagsCondition" where
  "condition c = (if \<not> (\<not> IsNone c) then Inl DcheckFailed else Inr (condition_' c))"

definition final_condition :: "FlagsContinuation \<Rightarrow> error + FlagsCondition" where
  "final_condition c =
     (if \<not> (IsConditionalTrap c \<or> IsConditionalBranch c) then Inl DcheckFailed
      else Inr (final_condition_' c))"

definition reason :: "FlagsContinuation \<Rightarrow> error + DeoptimizeReason" where
  "reason c = (if \<not> IsDeoptimize c then Inl DcheckFailed else Inr (reason_' c))"

definition node_id :: "FlagsContinuation \<Rightarrow> error + 32 word" where
  "node_id c = (if \<not> IsDeoptimize c then Inl DcheckFailed else Inr (node_id_' c))"

definition feedback :: "FlagsContinuation \<Rightarrow> error + FeedbackSource" where
  "feedback c = (if \<not> IsDeoptimize c then Inl DcheckFailed else Inr (feedback_' c))"

definition frame_state :: "FlagsContinuation \<Rightarrow> error + OpIndex" where
  "frame_state c =
     (if \<not> IsDeoptimize c then Inl DcheckFailed else Inr (frame_state_or_result_' c))"

definition result :: "FlagsContinuation \<Rightarrow> error + OpIndex" where
  "result c =
     (if \<not> (IsSet c \<or> IsSelect c) then Inl DcheckFailed
      else Inr (frame_state_or_result_' c))"

definition trap_id :: "FlagsContinuation \<Rightarrow> error + TrapId" where
  "trap_id c =
     (if \<not> (IsTrap c \<or> IsConditionalTrap c) then Inl DcheckFailed else Inr (trap_id_' c))"

definition true_block :: "FlagsContinuation \<Rightarrow> error + Block_ptr" where
  "true_block c =
     (if \<not> (IsBranch c \<or> IsConditionalBranch c) then Inl DcheckFailed
      else Inr (true_block_' c))"

definition false_block :: "FlagsContinuation \<Rightarrow> error + Block_ptr" where
  "false_block c =
     (if \<not> (IsBranch c \<or> IsConditionalBranch c) then Inl DcheckFailed
      else Inr (false_block_' c))"

definition hint :: "FlagsContinuation \<Rightarrow> error + BranchHint" where
  "hint c = (if \<not> IsBranch c then Inl DcheckFailed else Inr (hint_' c))"

definition true_value :: "FlagsContinuation \<Rightarrow> error + OpIndex" where
  "true_value c = (if \<not> IsSelect c then Inl DcheckFailed else Inr (true_value_' c))"

definition false_value :: "FlagsContinuation \<Rightarrow> error + OpIndex" where
  "false_value c = (if \<not> IsSelect c then Inl DcheckFailed else Inr (false_value_' c))"

definition compares :: "FlagsContinuation \<Rightarrow> error + compare_chain_t" where
  "compares c =
     (if \<not> (IsConditionalTrap c \<or> IsConditionalBranch c) then Inl DcheckFailed
      else Inr (compares_' c))"

definition num_conditional_compares :: "FlagsContinuation \<Rightarrow> error + 32 word" where
  "num_conditional_compares c =
     (if \<not> (IsConditionalTrap c \<or> IsConditionalBranch c) then Inl DcheckFailed
      else Inr (num_conditional_compares_' c))"

text \<open>
  The mutators: the continuation is passed in and returned updated. The parameter that the
  header calls \<^verbatim>\<open>condition\<close> is \<open>new_condition\<close> here, the accessor having taken the name.
\<close>

definition Negate :: "FlagsContinuation \<Rightarrow> error + FlagsContinuation" where
  "Negate c =
     (if \<not> (\<not> IsNone c) then Inl DcheckFailed
      else if \<not> (\<not> IsConditionalTrap c \<and> \<not> IsConditionalBranch c) then Inl DcheckFailed
      else Inr (c\<lparr>condition_' := NegateFlagsCondition (condition_' c)\<rparr>))"

definition Commute :: "FlagsContinuation \<Rightarrow> error + FlagsContinuation" where
  "Commute c =
     (if \<not> (\<not> IsNone c) then Inl DcheckFailed
      else if \<not> (\<not> IsConditionalTrap c \<and> \<not> IsConditionalBranch c) then Inl DcheckFailed
      else Inr (c\<lparr>condition_' := CommuteFlagsCondition (condition_' c)\<rparr>))"

definition Overwrite :: "FlagsContinuation \<Rightarrow> FlagsCondition \<Rightarrow> error + FlagsContinuation" where
  "Overwrite c new_condition =
     (if \<not> (\<not> IsConditionalTrap c \<and> \<not> IsConditionalBranch c) then Inl DcheckFailed
      else Inr (c\<lparr>condition_' := new_condition\<rparr>))"

definition OverwriteAndNegateIfEqual ::
  "FlagsContinuation \<Rightarrow> FlagsCondition \<Rightarrow> error + FlagsContinuation" where
  "OverwriteAndNegateIfEqual c new_condition =
     (if \<not> (condition_' c = kEqual \<or> condition_' c = kNotEqual) then Inl DcheckFailed
      else if \<not> (\<not> IsConditionalTrap c \<and> \<not> IsConditionalBranch c) then Inl DcheckFailed
      else let negate = (condition_' c = kEqual);
               c1 = c\<lparr>condition_' := new_condition\<rparr>
           in if negate then Negate c1 else Inr c1)"

text \<open>The \<^verbatim>\<open>switch\<close> of \<^verbatim>\<open>OverwriteUnsignedIfSigned\<close>: four cases and \<^verbatim>\<open>default: break\<close>.\<close>

fun unsigned_if_signed :: "FlagsCondition \<Rightarrow> FlagsCondition" where
  "unsigned_if_signed kSignedLessThan = kUnsignedLessThan"
| "unsigned_if_signed kSignedLessThanOrEqual = kUnsignedLessThanOrEqual"
| "unsigned_if_signed kSignedGreaterThan = kUnsignedGreaterThan"
| "unsigned_if_signed kSignedGreaterThanOrEqual = kUnsignedGreaterThanOrEqual"
| "unsigned_if_signed c = c"

definition OverwriteUnsignedIfSigned :: "FlagsContinuation \<Rightarrow> error + FlagsContinuation" where
  "OverwriteUnsignedIfSigned c =
     (if \<not> (\<not> IsConditionalTrap c \<and> \<not> IsConditionalBranch c) then Inl DcheckFailed
      else Inr (c\<lparr>condition_' := unsigned_if_signed (condition_' c)\<rparr>))"

text \<open>
  \<^verbatim>\<open>Encode\<close>. The bit fields \<^verbatim>\<open>FlagsModeField\<close> and \<^verbatim>\<open>FlagsConditionField\<close> are declared
  outside the sources; their \<^verbatim>\<open>encode\<close> functions are the parameters
  \<open>FlagsModeField_encode\<close> and \<open>FlagsConditionField_encode\<close>.
\<close>

definition Encode ::
  "(FlagsMode \<Rightarrow> InstructionCode) \<Rightarrow> (FlagsCondition \<Rightarrow> InstructionCode)
   \<Rightarrow> FlagsContinuation \<Rightarrow> InstructionCode \<Rightarrow> InstructionCode" where
  "Encode FlagsModeField_encode FlagsConditionField_encode c opcode =
     (let opcode1 = opcode OR FlagsModeField_encode (mode_' c)
      in if mode_' c \<noteq> kFlags_none
         then opcode1 OR FlagsConditionField_encode (condition_' c)
         else opcode1)"

subsection \<open>Building a conditional-compare chain\<close>

text \<open>
  Modelled from the spec: the code that collects the steps of a conditional-compare
  chain and makes the continuation from them is not among the sources. The spec: the
  chain is "an ordered sequence of at most 4 steps"; "attempting a 5th forces a flush to
  sequential compares rather than silent truncation"; "exceeding the chain bound requires
  falling back to sequential, unfused compares". The steps collected so far are either
  still fused in a chain, or have been flushed and are sequential compares; adding a step
  to a full chain flushes it, and the step added goes with the others.
\<close>

datatype compare_sequence =
    Fused "ConditionalCompare list"
  | Sequential "ConditionalCompare list"

fun add_compare :: "compare_sequence \<Rightarrow> ConditionalCompare \<Rightarrow> compare_sequence" where
  "add_compare (Fused steps) c =
     (if length steps < kMaxCompareChainSize then Fused (steps @ [c])
      else Sequential (steps @ [c]))"
| "add_compare (Sequential steps) c = Sequential (steps @ [c])"





subsection \<open>The selector's view of the graph: liveness, effect levels, uses\<close>

text \<open>
  Modelled from the spec: the operation graph \<^verbatim>\<open>schedule_\<close> is declared outside the
  sources. The spec: "nodes with a stable integer identity, grouped into blocks"; an
  operation may be "side-effecting", or be "kept alive solely for a trapping side effect".
  The record holds what the selector reads of it: the operations in the order in which
  they are scheduled, the block of each, which operations have a side effect, and which
  carry the effect \<^verbatim>\<open>IsRequiredWhenUnused\<close>.
\<close>

record Graph =
  operations :: "OpIndex list"
  BlockOf :: "OpIndex \<Rightarrow> nat"
  has_side_effect :: "OpIndex \<Rightarrow> bool"
  IsRequiredWhenUnused :: "OpIndex \<Rightarrow> bool"

text \<open>
  The members of \<^verbatim>\<open>InstructionSelector\<close> that the liveness and covering queries read:
  the bit vectors \<^verbatim>\<open>defined_\<close> and \<^verbatim>\<open>used_\<close> (the set of nodes whose bit is set), the
  vector \<^verbatim>\<open>effect_level_\<close> and the use map, a \<^verbatim>\<open>std::optional\<close>: \<open>None\<close> when it has no
  value, else the uses of each node.
\<close>

record InstructionSelector =
  schedule_' :: Graph
  defined_' :: "OpIndex set"
  used_' :: "OpIndex set"
  effect_level_' :: "OpIndex \<Rightarrow> int"
  turboshaft_use_map_' :: "(OpIndex \<Rightarrow> OpIndex list) option"

text \<open>
  Modelled from the spec: the bodies of \<^verbatim>\<open>IsDefined\<close>, \<^verbatim>\<open>IsUsed\<close> and
  \<^verbatim>\<open>IsReallyUsed\<close> are not among the sources (the header only declares them). The spec:
  the liveness state is a "per-node definition bit, use bit"; "IsUsed is true if the node
  has a real use or carries a must-emit-regardless-of-uses effect"; "IsReallyUsed ignores
  that forced-emission flag".
\<close>

definition IsDefined :: "InstructionSelector \<Rightarrow> OpIndex \<Rightarrow> bool" where
  "IsDefined s node = (node \<in> defined_' s)"

definition IsUsed :: "InstructionSelector \<Rightarrow> OpIndex \<Rightarrow> bool" where
  "IsUsed s node =
     (if IsRequiredWhenUnused (schedule_' s) node then True else node \<in> used_' s)"

definition IsReallyUsed :: "InstructionSelector \<Rightarrow> OpIndex \<Rightarrow> bool" where
  "IsReallyUsed s node = (node \<in> used_' s)"

text \<open>\<^verbatim>\<open>IsLive\<close> and \<^verbatim>\<open>IsReallyLive\<close>, as the header defines them inline.\<close>

definition IsLive :: "InstructionSelector \<Rightarrow> OpIndex \<Rightarrow> bool" where
  "IsLive s node = (\<not> IsDefined s node \<and> IsUsed s node)"

definition IsReallyLive :: "InstructionSelector \<Rightarrow> OpIndex \<Rightarrow> bool" where
  "IsReallyLive s node = (\<not> IsDefined s node \<and> IsReallyUsed s node)"






subsection \<open>Vector shuffles\<close>

text \<open>
  Modelled from the spec: the three size constants are declared outside the sources. The
  spec speaks of "a raw byte-permutation"; the names give the sizes in bytes of a 128-bit
  vector, of its half and of a 256-bit vector.
\<close>

definition kSimd128Size :: nat where
  "kSimd128Size = 16"

definition kSimd128HalfSize :: nat where
  "kSimd128HalfSize = 8"

definition kSimd256Size :: nat where
  "kSimd256Size = 32"

text \<open>
  Modelled from the spec: \<^verbatim>\<open>turboshaft::Simd128ShuffleOp\<close> is declared outside the
  sources. The spec: "a raw byte-permutation over one or two vector inputs". The record
  holds what the view reads of it: its inputs, \<^verbatim>\<open>input_count\<close> of them, and the array
  \<^verbatim>\<open>shuffle\<close> of bytes. \<^verbatim>\<open>op.input(i)\<close> checks its index.
\<close>

record Simd128ShuffleOp =
  inputs :: "OpIndex list"
  shuffle :: "8 word list"

definition input_count :: "Simd128ShuffleOp \<Rightarrow> nat" where
  "input_count op = length (inputs op)"

definition op_input :: "Simd128ShuffleOp \<Rightarrow> nat \<Rightarrow> error + OpIndex" where
  "op_input op i = (if \<not> i < input_count op then Inl DcheckFailed else Inr (inputs op ! i))"

record SimdShuffleView =
  node_' :: OpIndex
  input_mapping_' :: "nat list"
  op128_' :: Simd128ShuffleOp

text \<open>
  The constructor. \<open>get\<close> is \<^verbatim>\<open>graph->Get(node).Cast<Simd128ShuffleOp>()\<close>: \<open>None\<close> when
  the node is not a shuffle, which the cast asserts. The loop pushes
  \<open>0, ..., input_count - 1\<close>.
\<close>

definition simd_shuffle_view ::
  "(OpIndex \<Rightarrow> Simd128ShuffleOp option) \<Rightarrow> OpIndex \<Rightarrow> error + SimdShuffleView" where
  "simd_shuffle_view get node =
     (case get node of
        None \<Rightarrow> Inl DcheckFailed
      | Some op \<Rightarrow>
          Inr \<lparr>node_' = node, input_mapping_' = [0 ..< input_count op], op128_' = op\<rparr>)"

definition isSimd128 :: "SimdShuffleView \<Rightarrow> bool" where
  "isSimd128 view = True"

definition data :: "SimdShuffleView \<Rightarrow> 8 word list" where
  "data view = shuffle (op128_' view)"

text \<open>
  \<^verbatim>\<open>input(index)\<close>: the \<^verbatim>\<open>DCHECK_LT\<close>, then the element of the small vector (which checks
  its index), then the operation's input.
\<close>

definition input :: "SimdShuffleView \<Rightarrow> nat \<Rightarrow> error + OpIndex" where
  "input view index =
     (if \<not> index < input_count (op128_' view) then Inl DcheckFailed
      else if \<not> index < length (input_mapping_' view) then Inl DcheckFailed
      else op_input (op128_' view) (input_mapping_' view ! index))"

definition SwapInputs :: "SimdShuffleView \<Rightarrow> error + SimdShuffleView" where
  "SwapInputs view =
     (let m = input_mapping_' view
      in if \<not> 1 < length m then Inl DcheckFailed
         else Inr (view\<lparr>input_mapping_' := m[0 := m ! 1, 1 := m ! 0]\<rparr>))"

definition DuplicateFirstInput :: "SimdShuffleView \<Rightarrow> error + SimdShuffleView" where
  "DuplicateFirstInput view =
     (let m = input_mapping_' view
      in if \<not> 2 \<le> length m then Inl DcheckFailed
         else Inr (view\<lparr>input_mapping_' := m[1 := m ! 0]\<rparr>))"

text \<open>
  Modelled from the spec: the body of \<^verbatim>\<open>SwapShuffleInputs\<close> is not among the sources. Its
  declaration in the header says: "Swaps the two first input operands of the node";
  the spec: "whether the two inputs must be swapped". On a view that is \<open>SwapInputs\<close>.
\<close>

definition SwapShuffleInputs :: "SimdShuffleView \<Rightarrow> error + SimdShuffleView" where
  "SwapShuffleInputs view = SwapInputs view"

text \<open>
  \<^verbatim>\<open>CanonicalizeShuffle<simd_size, shuffle_size>\<close>. The template arguments are the first
  two parameters. \<^verbatim>\<open>GetVirtualRegister\<close> and \<^verbatim>\<open>wasm::SimdShuffle::CanonicalizeShuffle\<close>
  are not among the sources and are parameters: the first gives a node's virtual
  register, the second takes \<open>inputs_equal\<close> and the shuffle bytes and returns the
  rewritten bytes, \<open>needs_swap\<close> and \<open>is_swizzle\<close>. The function returns the view as it
  leaves it, the bytes written to \<^verbatim>\<open>shuffle\<close> and \<^verbatim>\<open>*is_swizzle\<close>.
\<close>

definition canonicalize_inputs ::
  "(OpIndex \<Rightarrow> int) \<Rightarrow> (bool \<Rightarrow> 8 word list \<Rightarrow> 8 word list \<times> bool \<times> bool)
   \<Rightarrow> SimdShuffleView \<Rightarrow> 8 word list \<Rightarrow> error + SimdShuffleView \<times> 8 word list \<times> bool" where
  "canonicalize_inputs GetVirtualRegister SimdShuffle_CanonicalizeShuffle view shuffle0 =
     (case input view 0 of
        Inl e \<Rightarrow> Inl e
      | Inr in0 \<Rightarrow>
     (case input view 1 of
        Inl e \<Rightarrow> Inl e
      | Inr in1 \<Rightarrow>
          let inputs_equal = (GetVirtualRegister in0 = GetVirtualRegister in1);
              (shuffle1, needs_swap, is_swizzle) =
                 SimdShuffle_CanonicalizeShuffle inputs_equal shuffle0
          in (case (if needs_swap then SwapShuffleInputs view else Inr view) of
                Inl e \<Rightarrow> Inl e
              | Inr view1 \<Rightarrow>
             (case (if is_swizzle then DuplicateFirstInput view1 else Inr view1) of
                Inl e \<Rightarrow> Inl e
              | Inr view2 \<Rightarrow> Inr (view2, shuffle1, is_swizzle)))))"

definition CanonicalizeShuffle ::
  "nat \<Rightarrow> nat \<Rightarrow> (OpIndex \<Rightarrow> int) \<Rightarrow> (bool \<Rightarrow> 8 word list \<Rightarrow> 8 word list \<times> bool \<times> bool)
   \<Rightarrow> SimdShuffleView \<Rightarrow> error + SimdShuffleView \<times> 8 word list \<times> bool" where
  "CanonicalizeShuffle simd_size shuffle_size GetVirtualRegister
       SimdShuffle_CanonicalizeShuffle view =
     (if simd_size = kSimd128Size then
        (if \<not> isSimd128 view then Inl DcheckFailed
         else canonicalize_inputs GetVirtualRegister SimdShuffle_CanonicalizeShuffle view
                (take shuffle_size (data view)))
      else if simd_size = kSimd256Size then
        (if \<not> (\<not> isSimd128 view) then Inl DcheckFailed
         else canonicalize_inputs GetVirtualRegister SimdShuffle_CanonicalizeShuffle view
                (take kSimd256Size (data view)))
      else Inl Unreachable)"

text \<open>
  The \<^verbatim>\<open>requires\<close> clause and the \<^verbatim>\<open>static_assert\<close>s of the template: the instantiations
  that compile.
\<close>

definition instantiable :: "nat \<Rightarrow> nat \<Rightarrow> bool" where
  "instantiable simd_size shuffle_size =
     ((simd_size = kSimd128Size \<or> simd_size = kSimd256Size)
      \<and> 0 < shuffle_size \<and> simd_size mod shuffle_size = 0
      \<and> (if simd_size = kSimd128Size
         then shuffle_size = kSimd128Size \<or> shuffle_size = kSimd128HalfSize
         else shuffle_size = kSimd256Size))"

subsection \<open>Concrete values for evaluation\<close>

text \<open>
  A compare step, a chain, a continuation's storage and a chained branch, then a small
  graph of four operations in one block (the second has a side effect and is required
  when unused; the last uses the first and the third), a selector state over it whose
  effect levels are 0, 0, 1, 1, and a shuffle of two inputs with its view.
\<close>

definition example_compare :: ConditionalCompare where
  "example_compare =
     \<lparr>code = 0, compare_condition = kNotEqual, default_flags = kEqual,
      lhs = Op 1, rhs = Op 2\<rparr>"

definition example_chain :: compare_chain_t where
  "example_chain = Abs_compare_chain_t (replicate kMaxCompareChainSize example_compare)"

definition example_storage :: FlagsContinuation where
  "example_storage =
     \<lparr>mode_' = kFlags_none, condition_' = kEqual, final_condition_' = kEqual,
      num_conditional_compares_' = 0, compares_' = example_chain, reason_' = 0,
      node_id_' = 0, feedback_' = 0, frame_state_or_result_' = Invalid,
      true_block_' = None, false_block_' = None, trap_id_' = 0,
      true_value_' = Invalid, false_value_' = Invalid, hint_' = BranchHint_kTrue\<rparr>"

definition example_chain_branch :: FlagsContinuation where
  "example_chain_branch =
     example_storage\<lparr>mode_' := kFlags_conditional_branch, true_block_' := Some 1,
                     false_block_' := Some 2\<rparr>"

definition example_graph :: Graph where
  "example_graph =
     \<lparr>operations = [Op 0, Op 1, Op 2, Op 3], BlockOf = (\<lambda>n. 0),
      has_side_effect = (\<lambda>n. n = Op 1), IsRequiredWhenUnused = (\<lambda>n. n = Op 1)\<rparr>"

definition example_selector :: InstructionSelector where
  "example_selector =
     \<lparr>schedule_' = example_graph, defined_' = {}, used_' = {Op 0},
      effect_level_' = (\<lambda>n. if n = Op 0 \<or> n = Op 1 then 0 else 1),
      turboshaft_use_map_' =
        Some (\<lambda>n. if n = Op 0 then [Op 3] else if n = Op 2 then [Op 3] else [])\<rparr>"

fun example_ordinal :: "OpIndex \<Rightarrow> nat" where
  "example_ordinal Invalid = 0"
| "example_ordinal (Op k) = k"

definition example_shuffle_op :: Simd128ShuffleOp where
  "example_shuffle_op =
     \<lparr>inputs = [Op 10, Op 11],
      shuffle = [16, 17, 18, 19, 20, 21, 22, 23, 24, 25, 26, 27, 28, 29, 30, 31]\<rparr>"

definition example_view :: SimdShuffleView where
  "example_view = \<lparr>node_' = Op 12, input_mapping_' = [0, 1], op128_' = example_shuffle_op\<rparr>"

definition example_canonicalize :: "bool \<Rightarrow> 8 word list \<Rightarrow> 8 word list \<times> bool \<times> bool" where
  "example_canonicalize inputs_equal bytes = (bytes, \<not> inputs_equal, True)"

section \<open>Properties\<close>

lemmas mode_tests =
  IsNone_def IsBranch_def IsConditionalBranch_def IsDeoptimize_def IsSet_def IsTrap_def
  IsConditionalTrap_def IsSelect_def

lemmas accessors =
  final_condition_def reason_def node_id_def feedback_def frame_state_def result_def
  trap_id_def true_block_def false_block_def hint_def true_value_def false_value_def
  compares_def num_conditional_compares_def

lemma NegateFlagsCondition_involution:
  "NegateFlagsCondition (NegateFlagsCondition x) = x"
  by (cases x) simp_all




lemma input_Inr:
  assumes "input view i = Inr x"
  shows "i < input_count (op128_' view) \<and> i < length (input_mapping_' view)
         \<and> input_mapping_' view ! i < input_count (op128_' view)
         \<and> x = inputs (op128_' view) ! (input_mapping_' view ! i)"
  using assms by (simp add: input_def op_input_def split: if_splits)

lemma input_mapping_update:
  assumes "i < input_count (op128_' view)" and "i < length m"
    and "m ! i < input_count (op128_' view)"
  shows "input (view\<lparr>input_mapping_' := m\<rparr>) i = Inr (inputs (op128_' view) ! (m ! i))"
  using assms by (simp add: input_def op_input_def)

lemma simd_shuffle_view_inputs:
  assumes "get node = Some op" and "2 \<le> input_count op"
  shows "\<exists>view. simd_shuffle_view get node = Inr view
           \<and> input view 0 = Inr (inputs op ! 0) \<and> input view 1 = Inr (inputs op ! 1)"
  using assms by (simp add: simd_shuffle_view_def input_def op_input_def)

lemma CanonicalizeShuffle_Simd256:
  "CanonicalizeShuffle kSimd256Size shuffle_size GetVirtualRegister
     SimdShuffle_CanonicalizeShuffle view = Inl DcheckFailed"
  by (simp add: CanonicalizeShuffle_def isSimd128_def kSimd256Size_def kSimd128Size_def)

lemma CanonicalizeShuffle_reachable:
  assumes "instantiable simd_size shuffle_size"
  shows "CanonicalizeShuffle simd_size shuffle_size GetVirtualRegister
           SimdShuffle_CanonicalizeShuffle view \<noteq> Inl Unreachable"
proof (cases "simd_size = kSimd128Size")
  case True
  then show ?thesis
    by (auto simp add: CanonicalizeShuffle_def canonicalize_inputs_def isSimd128_def
        input_def op_input_def SwapShuffleInputs_def SwapInputs_def DuplicateFirstInput_def
        Let_def split: sum.splits prod.splits if_splits)
next
  case False
  with assms have "simd_size = kSimd256Size"
    by (simp add: instantiable_def)
  then show ?thesis
    by (simp add: CanonicalizeShuffle_Simd256)
qed

lemma ForDeoptimizeForTesting_accepts_invalid:
  "ForDeoptimizeForTesting u cnd rsn nid fb None =
     Inr ((storage u)\<lparr>mode_' := kFlags_deoptimize, condition_' := cnd, reason_' := rsn,
            node_id_' := nid, feedback_' := fb, frame_state_or_result_' := Invalid\<rparr>)"
  by (simp add: ForDeoptimizeForTesting_def ctor_deoptimize_def)

subsection \<open>Covering\<close>



subsection \<open>The condition of a continuation\<close>

text \<open>
  Claim C2. In a mode other than None, ConditionalBranch and ConditionalTrap, \<open>Negate\<close>
  applied twice gives the continuation back, and with it the original condition.
\<close>

theorem Negate_twice:
  assumes "mode_' c \<noteq> kFlags_none"
    and "mode_' c \<noteq> kFlags_conditional_branch"
    and "mode_' c \<noteq> kFlags_conditional_trap"
  shows "(case Negate c of Inl e \<Rightarrow> Inl e | Inr c1 \<Rightarrow> Negate c1) = Inr c
         \<and> (case Negate c of Inl e \<Rightarrow> Inl e | Inr c1 \<Rightarrow>
              (case Negate c1 of Inl e \<Rightarrow> Inl e | Inr c2 \<Rightarrow> condition c2))
            = Inr (condition_' c)"
proof -
  let ?c1 = "c\<lparr>condition_' := NegateFlagsCondition (condition_' c)\<rparr>"
  have first: "Negate c = Inr ?c1"
    using assms by (simp add: Negate_def mode_tests)
  have "Negate ?c1 = Inr (?c1\<lparr>condition_' := NegateFlagsCondition (condition_' ?c1)\<rparr>)"
    using assms by (simp add: Negate_def mode_tests)
  then have second: "Negate ?c1 = Inr c"
    by (simp add: NegateFlagsCondition_involution)
  have "condition c = Inr (condition_' c)"
    using assms by (simp add: condition_def mode_tests)
  with first second show ?thesis by simp
qed

theorem Negate_twice_witness:
  "(case Negate (example_storage\<lparr>mode_' := kFlags_branch, condition_' := kSignedLessThan\<rparr>) of
      Inl e \<Rightarrow> Inl e | Inr c1 \<Rightarrow> Negate c1)
   = Inr (example_storage\<lparr>mode_' := kFlags_branch, condition_' := kSignedLessThan\<rparr>)
   \<and> Negate (example_storage\<lparr>mode_' := kFlags_branch, condition_' := kSignedLessThan\<rparr>)
     = Inr (example_storage\<lparr>mode_' := kFlags_branch, condition_' := kSignedGreaterThanOrEqual\<rparr>)"
  using Negate_twice [of "example_storage\<lparr>mode_' := kFlags_branch, condition_' := kSignedLessThan\<rparr>"]
  by (simp add: Negate_def mode_tests)


lemma foldl_add_compare_Sequential:
  "foldl add_compare (Sequential xs) ys = Sequential (xs @ ys)"
  by (induction ys arbitrary: xs) simp_all





text \<open>
  Claim C4. \<open>Encode\<close> returns the opcode with the encoded mode or-ed in and, exactly
  when the mode is not None, the encoded condition or-ed in as well; a continuation made
  by the default constructor adds the bits of the mode None only, whatever its storage
  held.
\<close>

theorem Encode_packs:
  "Encode FlagsModeField_encode FlagsConditionField_encode c opcode =
     (if mode_' c = kFlags_none then opcode OR FlagsModeField_encode kFlags_none
      else (opcode OR FlagsModeField_encode (mode_' c))
             OR FlagsConditionField_encode (condition_' c))
   \<and> Encode FlagsModeField_encode FlagsConditionField_encode
       (FlagsContinuation_default u) opcode =
     opcode OR FlagsModeField_encode kFlags_none"
  by (simp add: Encode_def FlagsContinuation_default_def storage_def Let_def)

text \<open>
  Claim C5. Each payload accessor returns its member in the modes its assertion names
  and fails the assertion in every other mode; in the chain modes ConditionalBranch and
  ConditionalTrap each of the five mutators fails its assertion.
\<close>

theorem payload_access_asserts_mode:
  "reason c = (if IsDeoptimize c then Inr (reason_' c) else Inl DcheckFailed)
   \<and> node_id c = (if IsDeoptimize c then Inr (node_id_' c) else Inl DcheckFailed)
   \<and> feedback c = (if IsDeoptimize c then Inr (feedback_' c) else Inl DcheckFailed)
   \<and> frame_state c =
       (if IsDeoptimize c then Inr (frame_state_or_result_' c) else Inl DcheckFailed)
   \<and> result c =
       (if IsSet c \<or> IsSelect c then Inr (frame_state_or_result_' c) else Inl DcheckFailed)
   \<and> trap_id c =
       (if IsTrap c \<or> IsConditionalTrap c then Inr (trap_id_' c) else Inl DcheckFailed)
   \<and> true_block c =
       (if IsBranch c \<or> IsConditionalBranch c then Inr (true_block_' c) else Inl DcheckFailed)
   \<and> false_block c =
       (if IsBranch c \<or> IsConditionalBranch c then Inr (false_block_' c)
        else Inl DcheckFailed)
   \<and> hint c = (if IsBranch c then Inr (hint_' c) else Inl DcheckFailed)
   \<and> true_value c = (if IsSelect c then Inr (true_value_' c) else Inl DcheckFailed)
   \<and> false_value c = (if IsSelect c then Inr (false_value_' c) else Inl DcheckFailed)
   \<and> compares c =
       (if IsConditionalTrap c \<or> IsConditionalBranch c then Inr (compares_' c)
        else Inl DcheckFailed)
   \<and> num_conditional_compares c =
       (if IsConditionalTrap c \<or> IsConditionalBranch c
        then Inr (num_conditional_compares_' c) else Inl DcheckFailed)
   \<and> final_condition c =
       (if IsConditionalTrap c \<or> IsConditionalBranch c then Inr (final_condition_' c)
        else Inl DcheckFailed)
   \<and> (IsConditionalBranch c \<or> IsConditionalTrap c \<longrightarrow>
        Negate c = Inl DcheckFailed
        \<and> Commute c = Inl DcheckFailed
        \<and> Overwrite c x = Inl DcheckFailed
        \<and> OverwriteAndNegateIfEqual c x = Inl DcheckFailed
        \<and> OverwriteUnsignedIfSigned c = Inl DcheckFailed)"
proof -
  have reads:
    "reason c = (if IsDeoptimize c then Inr (reason_' c) else Inl DcheckFailed)"
    "node_id c = (if IsDeoptimize c then Inr (node_id_' c) else Inl DcheckFailed)"
    "feedback c = (if IsDeoptimize c then Inr (feedback_' c) else Inl DcheckFailed)"
    "frame_state c =
       (if IsDeoptimize c then Inr (frame_state_or_result_' c) else Inl DcheckFailed)"
    "result c =
       (if IsSet c \<or> IsSelect c then Inr (frame_state_or_result_' c) else Inl DcheckFailed)"
    "trap_id c =
       (if IsTrap c \<or> IsConditionalTrap c then Inr (trap_id_' c) else Inl DcheckFailed)"
    "true_block c =
       (if IsBranch c \<or> IsConditionalBranch c then Inr (true_block_' c) else Inl DcheckFailed)"
    "false_block c =
       (if IsBranch c \<or> IsConditionalBranch c then Inr (false_block_' c)
        else Inl DcheckFailed)"
    "hint c = (if IsBranch c then Inr (hint_' c) else Inl DcheckFailed)"
    "true_value c = (if IsSelect c then Inr (true_value_' c) else Inl DcheckFailed)"
    "false_value c = (if IsSelect c then Inr (false_value_' c) else Inl DcheckFailed)"
    "compares c =
       (if IsConditionalTrap c \<or> IsConditionalBranch c then Inr (compares_' c)
        else Inl DcheckFailed)"
    "num_conditional_compares c =
       (if IsConditionalTrap c \<or> IsConditionalBranch c
        then Inr (num_conditional_compares_' c) else Inl DcheckFailed)"
    "final_condition c =
       (if IsConditionalTrap c \<or> IsConditionalBranch c then Inr (final_condition_' c)
        else Inl DcheckFailed)"
    by (simp_all add: accessors)
  have writes:
    "Negate c = Inl DcheckFailed"
    "Commute c = Inl DcheckFailed"
    "Overwrite c x = Inl DcheckFailed"
    "OverwriteAndNegateIfEqual c x = Inl DcheckFailed"
    "OverwriteUnsignedIfSigned c = Inl DcheckFailed"
    if "IsConditionalBranch c \<or> IsConditionalTrap c"
    using that
    by (auto simp add: Negate_def Commute_def Overwrite_def OverwriteAndNegateIfEqual_def
        OverwriteUnsignedIfSigned_def)
  from reads writes show ?thesis by blast
qed

theorem payload_access_asserts_mode_witness:
  "IsConditionalTrap (ForConditionalTrap example_storage example_chain 2 kEqual 7)
   \<and> Negate (ForConditionalTrap example_storage example_chain 2 kEqual 7) = Inl DcheckFailed
   \<and> Overwrite (ForConditionalTrap example_storage example_chain 2 kEqual 7) kNotEqual
       = Inl DcheckFailed
   \<and> reason (ForConditionalTrap example_storage example_chain 2 kEqual 7) = Inl DcheckFailed
   \<and> trap_id (ForConditionalTrap example_storage example_chain 2 kEqual 7) = Inr 7
   \<and> num_conditional_compares (ForConditionalTrap example_storage example_chain 2 kEqual 7)
       = Inr 2"
  using payload_access_asserts_mode
    [of "ForConditionalTrap example_storage example_chain 2 kEqual 7" kNotEqual]
  by (simp add: mode_tests ForConditionalTrap_def ctor_conditional_trap_def storage_def)

text \<open>
  Claim C6, as amended. \<open>OverwriteAndNegateIfEqual\<close> fails its assertion unless the
  current condition is \<open>kEqual\<close> or \<open>kNotEqual\<close>, and in a chain mode. In a mode that is not a chain mode it
  sets the condition to the given one when the current one is \<open>kNotEqual\<close>, and, the mode
  not being None either, to the negation of the given one when the current one is
  \<open>kEqual\<close>; nothing else changes.
\<close>

theorem OverwriteAndNegateIfEqual_sets:
  "(\<not> (condition_' c = kEqual \<or> condition_' c = kNotEqual) \<longrightarrow>
      OverwriteAndNegateIfEqual c x = Inl DcheckFailed)
   \<and> (IsConditionalTrap c \<or> IsConditionalBranch c \<longrightarrow>
      OverwriteAndNegateIfEqual c x = Inl DcheckFailed)
   \<and> (condition_' c = kNotEqual \<and> \<not> IsConditionalTrap c \<and> \<not> IsConditionalBranch c \<longrightarrow>
      OverwriteAndNegateIfEqual c x = Inr (c\<lparr>condition_' := x\<rparr>))
   \<and> (condition_' c = kEqual \<and> \<not> IsConditionalTrap c \<and> \<not> IsConditionalBranch c
        \<and> \<not> IsNone c \<longrightarrow>
      OverwriteAndNegateIfEqual c x = Inr (c\<lparr>condition_' := NegateFlagsCondition x\<rparr>))"
proof (intro conjI impI)
  assume "\<not> (condition_' c = kEqual \<or> condition_' c = kNotEqual)"
  then show "OverwriteAndNegateIfEqual c x = Inl DcheckFailed"
    by (simp add: OverwriteAndNegateIfEqual_def)
next
  assume "IsConditionalTrap c \<or> IsConditionalBranch c"
  then show "OverwriteAndNegateIfEqual c x = Inl DcheckFailed"
    by (auto simp add: OverwriteAndNegateIfEqual_def)
next
  assume "condition_' c = kNotEqual \<and> \<not> IsConditionalTrap c \<and> \<not> IsConditionalBranch c"
  then show "OverwriteAndNegateIfEqual c x = Inr (c\<lparr>condition_' := x\<rparr>)"
    by (simp add: OverwriteAndNegateIfEqual_def)
next
  assume a: "condition_' c = kEqual \<and> \<not> IsConditionalTrap c \<and> \<not> IsConditionalBranch c
             \<and> \<not> IsNone c"
  let ?c1 = "c\<lparr>condition_' := x\<rparr>"
  from a have "Negate ?c1 = Inr (?c1\<lparr>condition_' := NegateFlagsCondition x\<rparr>)"
    by (simp add: Negate_def mode_tests)
  with a show "OverwriteAndNegateIfEqual c x = Inr (c\<lparr>condition_' := NegateFlagsCondition x\<rparr>)"
    by (simp add: OverwriteAndNegateIfEqual_def)
qed

theorem OverwriteAndNegateIfEqual_sets_witness:
  "OverwriteAndNegateIfEqual (example_storage\<lparr>mode_' := kFlags_set, condition_' := kEqual\<rparr>)
     kUnsignedLessThan
   = Inr (example_storage\<lparr>mode_' := kFlags_set, condition_' := kUnsignedGreaterThanOrEqual\<rparr>)
   \<and> OverwriteAndNegateIfEqual
       (example_storage\<lparr>mode_' := kFlags_set, condition_' := kNotEqual\<rparr>) kUnsignedLessThan
   = Inr (example_storage\<lparr>mode_' := kFlags_set, condition_' := kUnsignedLessThan\<rparr>)
   \<and> OverwriteAndNegateIfEqual
       (example_storage\<lparr>mode_' := kFlags_set, condition_' := kSignedLessThan\<rparr>)
       kUnsignedLessThan
   = Inl DcheckFailed"
proof -
  let ?e = "example_storage\<lparr>mode_' := kFlags_set, condition_' := kEqual\<rparr>"
  let ?n = "example_storage\<lparr>mode_' := kFlags_set, condition_' := kNotEqual\<rparr>"
  let ?s = "example_storage\<lparr>mode_' := kFlags_set, condition_' := kSignedLessThan\<rparr>"
  have e: "condition_' ?e = kEqual \<and> \<not> IsConditionalTrap ?e \<and> \<not> IsConditionalBranch ?e
           \<and> \<not> IsNone ?e"
    by (simp add: mode_tests)
  have n: "condition_' ?n = kNotEqual \<and> \<not> IsConditionalTrap ?n \<and> \<not> IsConditionalBranch ?n"
    by (simp add: mode_tests)
  have s: "\<not> (condition_' ?s = kEqual \<or> condition_' ?s = kNotEqual)"
    by simp
  from e OverwriteAndNegateIfEqual_sets [of ?e kUnsignedLessThan]
  have "OverwriteAndNegateIfEqual ?e kUnsignedLessThan =
        Inr (?e\<lparr>condition_' := NegateFlagsCondition kUnsignedLessThan\<rparr>)"
    by blast
  moreover from n OverwriteAndNegateIfEqual_sets [of ?n kUnsignedLessThan]
  have "OverwriteAndNegateIfEqual ?n kUnsignedLessThan = Inr (?n\<lparr>condition_' := kUnsignedLessThan\<rparr>)"
    by blast
  moreover from s OverwriteAndNegateIfEqual_sets [of ?s kUnsignedLessThan]
  have "OverwriteAndNegateIfEqual ?s kUnsignedLessThan = Inl DcheckFailed"
    by blast
  ultimately show ?thesis by simp
qed

text \<open>
  Claim C6 as stated fails: on a ConditionalBranch continuation whose condition is
  \<open>kNotEqual\<close> the precondition of the claim holds and the call fails an assertion.
\<close>

theorem OverwriteAndNegateIfEqual_chain_counterexample:
  "condition_' (example_chain_branch\<lparr>condition_' := kNotEqual\<rparr>) = kNotEqual
   \<and> OverwriteAndNegateIfEqual (example_chain_branch\<lparr>condition_' := kNotEqual\<rparr>)
        kSignedLessThan = Inl DcheckFailed"
  by (simp add: OverwriteAndNegateIfEqual_def example_chain_branch_def mode_tests)

text \<open>
  Claim C7, as amended. In a mode that is not a chain mode \<open>OverwriteUnsignedIfSigned\<close>
  replaces the condition by \<open>unsigned_if_signed\<close> of it, which maps the four signed
  comparisons to their unsigned counterparts and every other condition to itself; whenever
  it returns, the mode and every member but the condition are as before. In a chain mode
  it fails its assertion.
\<close>

theorem OverwriteUnsignedIfSigned_replaces:
  "(\<not> IsConditionalTrap c \<and> \<not> IsConditionalBranch c \<longrightarrow>
      OverwriteUnsignedIfSigned c = Inr (c\<lparr>condition_' := unsigned_if_signed (condition_' c)\<rparr>))
   \<and> (IsConditionalTrap c \<or> IsConditionalBranch c \<longrightarrow>
      OverwriteUnsignedIfSigned c = Inl DcheckFailed)
   \<and> (\<forall>c1. OverwriteUnsignedIfSigned c = Inr c1 \<longrightarrow>
        mode_' c1 = mode_' c \<and> c1\<lparr>condition_' := condition_' c\<rparr> = c)
   \<and> unsigned_if_signed kSignedLessThan = kUnsignedLessThan
   \<and> unsigned_if_signed kSignedLessThanOrEqual = kUnsignedLessThanOrEqual
   \<and> unsigned_if_signed kSignedGreaterThan = kUnsignedGreaterThan
   \<and> unsigned_if_signed kSignedGreaterThanOrEqual = kUnsignedGreaterThanOrEqual
   \<and> (y \<noteq> kSignedLessThan \<and> y \<noteq> kSignedLessThanOrEqual \<and> y \<noteq> kSignedGreaterThan
        \<and> y \<noteq> kSignedGreaterThanOrEqual \<longrightarrow> unsigned_if_signed y = y)"
proof (intro conjI impI allI)
  assume "\<not> IsConditionalTrap c \<and> \<not> IsConditionalBranch c"
  then show "OverwriteUnsignedIfSigned c =
      Inr (c\<lparr>condition_' := unsigned_if_signed (condition_' c)\<rparr>)"
    by (simp add: OverwriteUnsignedIfSigned_def)
next
  assume "IsConditionalTrap c \<or> IsConditionalBranch c"
  then show "OverwriteUnsignedIfSigned c = Inl DcheckFailed"
    by (auto simp add: OverwriteUnsignedIfSigned_def)
next
  fix c1
  assume r: "OverwriteUnsignedIfSigned c = Inr c1"
  then have c1: "c1 = c\<lparr>condition_' := unsigned_if_signed (condition_' c)\<rparr>"
    by (simp add: OverwriteUnsignedIfSigned_def split: if_splits)
  show "mode_' c1 = mode_' c" by (simp add: c1)
  show "c1\<lparr>condition_' := condition_' c\<rparr> = c" by (simp add: c1)
next
  assume "y \<noteq> kSignedLessThan \<and> y \<noteq> kSignedLessThanOrEqual \<and> y \<noteq> kSignedGreaterThan
        \<and> y \<noteq> kSignedGreaterThanOrEqual"
  then show "unsigned_if_signed y = y" by (cases y) simp_all
qed simp_all

theorem OverwriteUnsignedIfSigned_replaces_witness:
  "OverwriteUnsignedIfSigned
     (example_storage\<lparr>mode_' := kFlags_branch, condition_' := kSignedGreaterThan\<rparr>)
   = Inr (example_storage\<lparr>mode_' := kFlags_branch, condition_' := kUnsignedGreaterThan\<rparr>)
   \<and> OverwriteUnsignedIfSigned
     (example_storage\<lparr>mode_' := kFlags_branch, condition_' := kNotEqual\<rparr>)
   = Inr (example_storage\<lparr>mode_' := kFlags_branch, condition_' := kNotEqual\<rparr>)
   \<and> unsigned_if_signed kEqual = kEqual"
proof -
  let ?g = "example_storage\<lparr>mode_' := kFlags_branch, condition_' := kSignedGreaterThan\<rparr>"
  let ?n = "example_storage\<lparr>mode_' := kFlags_branch, condition_' := kNotEqual\<rparr>"
  have g: "\<not> IsConditionalTrap ?g \<and> \<not> IsConditionalBranch ?g"
    by (simp add: mode_tests)
  have n: "\<not> IsConditionalTrap ?n \<and> \<not> IsConditionalBranch ?n"
    by (simp add: mode_tests)
  have k: "kEqual \<noteq> kSignedLessThan \<and> kEqual \<noteq> kSignedLessThanOrEqual
           \<and> kEqual \<noteq> kSignedGreaterThan \<and> kEqual \<noteq> kSignedGreaterThanOrEqual"
    by simp
  from g OverwriteUnsignedIfSigned_replaces [of ?g kEqual]
  have "OverwriteUnsignedIfSigned ?g =
        Inr (?g\<lparr>condition_' := unsigned_if_signed (condition_' ?g)\<rparr>)"
    by blast
  moreover from n OverwriteUnsignedIfSigned_replaces [of ?n kEqual]
  have "OverwriteUnsignedIfSigned ?n =
        Inr (?n\<lparr>condition_' := unsigned_if_signed (condition_' ?n)\<rparr>)"
    by blast
  moreover from k OverwriteUnsignedIfSigned_replaces [of ?n kEqual]
  have "unsigned_if_signed kEqual = kEqual"
    by blast
  ultimately show ?thesis by simp
qed

text \<open>
  Claim C7 as stated fails: on a ConditionalBranch continuation whose condition is
  \<open>kSignedLessThan\<close> the call fails an assertion and replaces nothing.
\<close>

theorem OverwriteUnsignedIfSigned_chain_counterexample:
  "OverwriteUnsignedIfSigned (example_chain_branch\<lparr>condition_' := kSignedLessThan\<rparr>)
     = Inl DcheckFailed
   \<and> OverwriteUnsignedIfSigned (example_chain_branch\<lparr>condition_' := kSignedLessThan\<rparr>)
     \<noteq> Inr (example_chain_branch\<lparr>condition_' := kUnsignedLessThan\<rparr>)"
  by (simp add: OverwriteUnsignedIfSigned_def example_chain_branch_def mode_tests)

text \<open>
  Claim C8. \<open>ForDeoptimize\<close> with an invalid frame state fails its assertion; with a valid
  one it returns the Deoptimize continuation holding it; so a continuation it returns
  always has a valid frame state.
\<close>

theorem ForDeoptimize_requires_frame_state:
  "(\<not> valid fs \<longrightarrow> ForDeoptimize u cnd rsn nid fb fs = Inl DcheckFailed)
   \<and> (valid fs \<longrightarrow>
        ForDeoptimize u cnd rsn nid fb fs =
          Inr ((storage u)\<lparr>mode_' := kFlags_deoptimize, condition_' := cnd, reason_' := rsn,
                 node_id_' := nid, feedback_' := fb, frame_state_or_result_' := fs\<rparr>))
   \<and> (\<forall>c. ForDeoptimize u cnd rsn nid fb fs = Inr c \<longrightarrow>
        frame_state c = Inr fs \<and> valid fs)"
proof (intro conjI impI allI)
  assume "\<not> valid fs"
  then show "ForDeoptimize u cnd rsn nid fb fs = Inl DcheckFailed"
    by (simp add: ForDeoptimize_def)
next
  assume "valid fs"
  then show "ForDeoptimize u cnd rsn nid fb fs =
          Inr ((storage u)\<lparr>mode_' := kFlags_deoptimize, condition_' := cnd, reason_' := rsn,
                 node_id_' := nid, feedback_' := fb, frame_state_or_result_' := fs\<rparr>)"
    by (simp add: ForDeoptimize_def ctor_deoptimize_def)
next
  fix c
  assume r: "ForDeoptimize u cnd rsn nid fb fs = Inr c"
  then show "valid fs"
    by (simp add: ForDeoptimize_def split: if_splits)
  with r have "c = (storage u)\<lparr>mode_' := kFlags_deoptimize, condition_' := cnd,
      reason_' := rsn, node_id_' := nid, feedback_' := fb, frame_state_or_result_' := fs\<rparr>"
    by (simp add: ForDeoptimize_def ctor_deoptimize_def)
  then show "frame_state c = Inr fs"
    by (simp add: frame_state_def IsDeoptimize_def)
qed

theorem ForDeoptimize_requires_frame_state_witness:
  "\<not> valid Invalid
   \<and> ForDeoptimize example_storage kNotEqual 3 4 5 Invalid = Inl DcheckFailed
   \<and> valid (Op 9)
   \<and> (case ForDeoptimize example_storage kNotEqual 3 4 5 (Op 9) of
        Inl e \<Rightarrow> Inl e | Inr c \<Rightarrow> frame_state c) = Inr (Op 9)"
proof -
  have i: "\<not> valid Invalid" by simp
  have v: "valid (Op 9)" by simp
  from i ForDeoptimize_requires_frame_state [of Invalid example_storage kNotEqual 3 4 5]
  have bad: "ForDeoptimize example_storage kNotEqual 3 4 5 Invalid = Inl DcheckFailed"
    by blast
  from v ForDeoptimize_requires_frame_state [of "Op 9" example_storage kNotEqual 3 4 5]
  obtain c where c: "ForDeoptimize example_storage kNotEqual 3 4 5 (Op 9) = Inr c"
    by blast
  with ForDeoptimize_requires_frame_state [of "Op 9" example_storage kNotEqual 3 4 5]
  have "frame_state c = Inr (Op 9)"
    by blast
  with c have "(case ForDeoptimize example_storage kNotEqual 3 4 5 (Op 9) of
        Inl e \<Rightarrow> Inl e | Inr c \<Rightarrow> frame_state c) = Inr (Op 9)"
    by simp
  with i v bad show ?thesis by blast
qed

subsection \<open>Liveness\<close>

text \<open>
  Claim C10. A node is live when it is not defined and used, really live when it is not
  defined and really used, and \<open>IsUsed\<close> is \<open>IsReallyUsed\<close> or the effect
  \<open>IsRequiredWhenUnused\<close>.
\<close>

theorem liveness_queries:
  "IsLive s n = (\<not> IsDefined s n \<and> IsUsed s n)
   \<and> IsReallyLive s n = (\<not> IsDefined s n \<and> IsReallyUsed s n)
   \<and> IsUsed s n = (IsRequiredWhenUnused (schedule_' s) n \<or> IsReallyUsed s n)"
  by (simp add: IsLive_def IsReallyLive_def IsUsed_def IsReallyUsed_def)

theorem liveness_queries_witness:
  "IsLive example_selector (Op 1) \<and> \<not> IsReallyLive example_selector (Op 1)
   \<and> IsLive example_selector (Op 0) \<and> IsReallyLive example_selector (Op 0)
   \<and> \<not> IsLive example_selector (Op 2)"
  using liveness_queries [of example_selector "Op 1"]
    liveness_queries [of example_selector "Op 0"]
    liveness_queries [of example_selector "Op 2"]
  by (simp add: IsDefined_def IsReallyUsed_def example_selector_def example_graph_def)

subsection \<open>Vector shuffles\<close>

text \<open>
  The 128-bit instantiation on a view whose two inputs can be read, then on a view where
  one of them cannot.
\<close>

lemma CanonicalizeShuffle_two_inputs:
  assumes size: "simd_size = kSimd128Size"
    and in0: "input view 0 = Inr in0"
    and in1: "input view 1 = Inr in1"
    and canon: "SimdShuffle_CanonicalizeShuffle
                  (GetVirtualRegister in0 = GetVirtualRegister in1)
                  (take shuffle_size (data view)) = (shuffle1, needs_swap, is_swizzle)"
  shows "\<exists>view1.
           CanonicalizeShuffle simd_size shuffle_size GetVirtualRegister
             SimdShuffle_CanonicalizeShuffle view = Inr (view1, shuffle1, is_swizzle)
           \<and> view1 = view\<lparr>input_mapping_' :=
                (let m = input_mapping_' view;
                     m1 = (if needs_swap then m[0 := m ! 1, 1 := m ! 0] else m)
                 in if is_swizzle then m1[1 := m1 ! 0] else m1)\<rparr>
           \<and> input view1 0 = Inr (if needs_swap then in1 else in0)
           \<and> input view1 1 =
               Inr (if is_swizzle then (if needs_swap then in1 else in0)
                    else if needs_swap then in0 else in1)
           \<and> (is_swizzle \<longrightarrow> input view1 0 = input view1 1)"
proof -
  let ?m = "input_mapping_' view"
  let ?op = "op128_' view"
  define m1 where "m1 = (if needs_swap then ?m[0 := ?m ! 1, 1 := ?m ! 0] else ?m)"
  define m2 where "m2 = (if is_swizzle then m1[1 := m1 ! 0] else m1)"
  from input_Inr [OF in0] input_Inr [OF in1]
  have wf: "1 < input_count ?op" "1 < length ?m"
      "?m ! 0 < input_count ?op" "?m ! 1 < input_count ?op"
    and v0: "in0 = inputs ?op ! (?m ! 0)"
    and v1: "in1 = inputs ?op ! (?m ! 1)"
    by simp_all
  from wf(2) have pos: "0 < length ?m"
    by (rule less_trans [OF zero_less_one])
  from wf(1) have count: "0 < input_count ?op"
    by (rule less_trans [OF zero_less_one])
  have len1: "length m1 = length ?m"
    by (simp add: m1_def)
  have len2: "length m2 = length ?m"
    by (simp add: m2_def len1)
  have m1_0: "m1 ! 0 = (if needs_swap then ?m ! 1 else ?m ! 0)"
    using wf(2) pos by (simp add: m1_def)
  have m1_1: "m1 ! 1 = (if needs_swap then ?m ! 0 else ?m ! 1)"
    using wf(2) pos by (simp add: m1_def)
  have m2_0: "m2 ! 0 = m1 ! 0"
    by (simp add: m2_def)
  have m2_1: "m2 ! 1 = (if is_swizzle then m1 ! 0 else m1 ! 1)"
    using wf(2) by (simp add: m2_def len1)
  have swap: "(if needs_swap then SwapShuffleInputs view else Inr view)
      = Inr (view\<lparr>input_mapping_' := m1\<rparr>)"
    using wf(2) by (simp add: SwapShuffleInputs_def SwapInputs_def Let_def m1_def)
  have dup: "(if is_swizzle then DuplicateFirstInput (view\<lparr>input_mapping_' := m1\<rparr>)
              else Inr (view\<lparr>input_mapping_' := m1\<rparr>))
      = Inr (view\<lparr>input_mapping_' := m2\<rparr>)"
    using wf(2) by (simp add: DuplicateFirstInput_def Let_def m2_def len1)
  have run: "CanonicalizeShuffle simd_size shuffle_size GetVirtualRegister
      SimdShuffle_CanonicalizeShuffle view
      = Inr (view\<lparr>input_mapping_' := m2\<rparr>, shuffle1, is_swizzle)"
    unfolding CanonicalizeShuffle_def canonicalize_inputs_def
    using in1 by (simp add: size isSimd128_def in0 canon swap dup)
  have b0: "m2 ! 0 < input_count ?op"
    using wf(3,4) by (simp add: m2_0 m1_0)
  have b1: "m2 ! 1 < input_count ?op"
    using wf(3,4) m2_1 m1_0 m1_1 by simp
  have "input (view\<lparr>input_mapping_' := m2\<rparr>) 0 = Inr (inputs ?op ! (m2 ! 0))"
    using count pos b0 by (intro input_mapping_update) (simp_all add: len2)
  then have r0: "input (view\<lparr>input_mapping_' := m2\<rparr>) 0
      = Inr (if needs_swap then in1 else in0)"
    by (simp add: m2_0 m1_0 v0 v1)
  have "input (view\<lparr>input_mapping_' := m2\<rparr>) 1 = Inr (inputs ?op ! (m2 ! 1))"
    using wf(1,2) b1 by (intro input_mapping_update) (simp_all add: len2)
  then have r1: "input (view\<lparr>input_mapping_' := m2\<rparr>) 1
      = Inr (if is_swizzle then (if needs_swap then in1 else in0)
             else if needs_swap then in0 else in1)"
    using m2_1 m1_0 m1_1 v0 v1 by simp
  have same: "is_swizzle \<longrightarrow>
      input (view\<lparr>input_mapping_' := m2\<rparr>) 0 = input (view\<lparr>input_mapping_' := m2\<rparr>) 1"
    using r0 r1 by simp
  have shape: "view\<lparr>input_mapping_' := m2\<rparr> = view\<lparr>input_mapping_' :=
                (let m = input_mapping_' view;
                     m1 = (if needs_swap then m[0 := m ! 1, 1 := m ! 0] else m)
                 in if is_swizzle then m1[1 := m1 ! 0] else m1)\<rparr>"
    by (simp add: Let_def m2_def m1_def)
  from run shape r0 r1 same show ?thesis
    by blast
qed


lemma input_Inl:
  "input view i = Inl e \<Longrightarrow> e = DcheckFailed"
  by (simp add: input_def op_input_def split: if_splits)

lemma CanonicalizeShuffle_unreadable:
  assumes size: "simd_size = kSimd128Size"
    and unreadable: "\<not> (\<exists>a b. input view 0 = Inr a \<and> input view 1 = Inr b)"
  shows "CanonicalizeShuffle simd_size shuffle_size GetVirtualRegister
           SimdShuffle_CanonicalizeShuffle view = Inl DcheckFailed"
proof (cases "input view 0")
  case (Inl e)
  with input_Inl [OF Inl] size show ?thesis
    by (simp add: CanonicalizeShuffle_def canonicalize_inputs_def isSimd128_def)
next
  case (Inr a)
  with unreadable obtain e where second: "input view 1 = Inl e"
    by (cases "input view 1") auto
  from input_Inl [OF second] second Inr size show ?thesis
    by (simp add: CanonicalizeShuffle_def canonicalize_inputs_def isSimd128_def)
qed

text \<open>
  Claim C9, as amended. On a view whose two inputs can be read, \<open>CanonicalizeShuffle\<close>
  for 128-bit vectors hands the first \<open>shuffle_size\<close> bytes of the node's shuffle to the
  canonicalizer and returns its bytes and its verdict \<open>is_swizzle\<close>; it swaps the two
  entries of the view's input mapping exactly when the canonicalizer asks for a swap and
  then, exactly when the shuffle is a swizzle, copies the first entry over the second, so
  that for a swizzle both inputs of the view are the same operation. On a view one of
  whose two inputs cannot be read it fails an assertion, and so does the instantiation
  for 256-bit vectors on every view.
\<close>

theorem CanonicalizeShuffle_inputs:
  "(simd_size = kSimd128Size \<and> input view 0 = Inr first_in \<and> input view 1 = Inr second_in
      \<and> SimdShuffle_CanonicalizeShuffle (GetVirtualRegister first_in = GetVirtualRegister second_in)
           (take shuffle_size (data view)) = (bytes, needs_swap, is_swizzle) \<longrightarrow>
      (\<exists>view1.
           CanonicalizeShuffle simd_size shuffle_size GetVirtualRegister
             SimdShuffle_CanonicalizeShuffle view = Inr (view1, bytes, is_swizzle)
           \<and> view1 = view\<lparr>input_mapping_' :=
                (let m = input_mapping_' view;
                     m1 = (if needs_swap then m[0 := m ! 1, 1 := m ! 0] else m)
                 in if is_swizzle then m1[1 := m1 ! 0] else m1)\<rparr>
           \<and> input view1 0 = Inr (if needs_swap then second_in else first_in)
           \<and> input view1 1 =
               Inr (if is_swizzle then (if needs_swap then second_in else first_in)
                    else if needs_swap then first_in else second_in)
           \<and> (is_swizzle \<longrightarrow> input view1 0 = input view1 1)))
   \<and> (simd_size = kSimd128Size \<and> \<not> (\<exists>a b. input view 0 = Inr a \<and> input view 1 = Inr b) \<longrightarrow>
        CanonicalizeShuffle simd_size shuffle_size GetVirtualRegister
          SimdShuffle_CanonicalizeShuffle view = Inl DcheckFailed)
   \<and> (simd_size = kSimd256Size \<longrightarrow>
        CanonicalizeShuffle simd_size shuffle_size GetVirtualRegister
          SimdShuffle_CanonicalizeShuffle view = Inl DcheckFailed)"
proof (intro conjI impI)
  assume "simd_size = kSimd128Size \<and> input view 0 = Inr first_in \<and> input view 1 = Inr second_in
      \<and> SimdShuffle_CanonicalizeShuffle (GetVirtualRegister first_in = GetVirtualRegister second_in)
           (take shuffle_size (data view)) = (bytes, needs_swap, is_swizzle)"
  then have size: "simd_size = kSimd128Size"
    and first_in: "input view 0 = Inr first_in"
    and second_in: "input view 1 = Inr second_in"
    and canon: "SimdShuffle_CanonicalizeShuffle
        (GetVirtualRegister first_in = GetVirtualRegister second_in)
        (take shuffle_size (data view)) = (bytes, needs_swap, is_swizzle)"
    by simp_all
  from size first_in second_in canon
  show "\<exists>view1.
           CanonicalizeShuffle simd_size shuffle_size GetVirtualRegister
             SimdShuffle_CanonicalizeShuffle view = Inr (view1, bytes, is_swizzle)
           \<and> view1 = view\<lparr>input_mapping_' :=
                (let m = input_mapping_' view;
                     m1 = (if needs_swap then m[0 := m ! 1, 1 := m ! 0] else m)
                 in if is_swizzle then m1[1 := m1 ! 0] else m1)\<rparr>
           \<and> input view1 0 = Inr (if needs_swap then second_in else first_in)
           \<and> input view1 1 =
               Inr (if is_swizzle then (if needs_swap then second_in else first_in)
                    else if needs_swap then first_in else second_in)
           \<and> (is_swizzle \<longrightarrow> input view1 0 = input view1 1)"
    by (rule CanonicalizeShuffle_two_inputs)
next
  assume "simd_size = kSimd128Size
      \<and> \<not> (\<exists>a b. input view 0 = Inr a \<and> input view 1 = Inr b)"
  then show "CanonicalizeShuffle simd_size shuffle_size GetVirtualRegister
      SimdShuffle_CanonicalizeShuffle view = Inl DcheckFailed"
    by (intro CanonicalizeShuffle_unreadable) simp_all
next
  assume "simd_size = kSimd256Size"
  then show "CanonicalizeShuffle simd_size shuffle_size GetVirtualRegister
      SimdShuffle_CanonicalizeShuffle view = Inl DcheckFailed"
    by (simp add: CanonicalizeShuffle_Simd256)
qed

theorem CanonicalizeShuffle_inputs_witness:
  "simd_shuffle_view (\<lambda>n. if n = Op 12 then Some example_shuffle_op else None) (Op 12)
     = Inr example_view
   \<and> input example_view 0 = Inr (Op 10) \<and> input example_view 1 = Inr (Op 11)
   \<and> CanonicalizeShuffle kSimd128Size kSimd128Size (\<lambda>n. int (example_ordinal n))
        example_canonicalize example_view
     = Inr (example_view\<lparr>input_mapping_' := [1, 1]\<rparr>, shuffle example_shuffle_op, True)
   \<and> input (example_view\<lparr>input_mapping_' := [1, 1]\<rparr>) 0 = Inr (Op 11)
   \<and> input (example_view\<lparr>input_mapping_' := [1, 1]\<rparr>) 1 = Inr (Op 11)"
proof -
  let ?gvr = "\<lambda>n. int (example_ordinal n)"
  have made: "simd_shuffle_view (\<lambda>n. if n = Op 12 then Some example_shuffle_op else None)
      (Op 12) = Inr example_view"
    by (simp add: simd_shuffle_view_def example_view_def example_shuffle_op_def
        input_count_def upt_rec)
  have in0: "input example_view 0 = Inr (Op 10)"
    by (simp add: input_def op_input_def input_count_def example_view_def
        example_shuffle_op_def)
  have in1: "input example_view 1 = Inr (Op 11)"
    by (simp add: input_def op_input_def input_count_def example_view_def
        example_shuffle_op_def)
  have canon: "example_canonicalize (?gvr (Op 10) = ?gvr (Op 11))
      (take kSimd128Size (data example_view)) = (shuffle example_shuffle_op, True, True)"
    by (simp add: example_canonicalize_def data_def kSimd128Size_def example_view_def
        example_shuffle_op_def)
  have size: "kSimd128Size = kSimd128Size"
    by simp
  from size in0 in1 canon CanonicalizeShuffle_inputs
    [where simd_size = kSimd128Size and view = example_view
       and first_in = "Op 10" and second_in = "Op 11" and GetVirtualRegister = ?gvr
       and SimdShuffle_CanonicalizeShuffle = example_canonicalize
       and shuffle_size = kSimd128Size and bytes = "shuffle example_shuffle_op"
       and needs_swap = True and is_swizzle = True]
  obtain view1 where
    run: "CanonicalizeShuffle kSimd128Size kSimd128Size ?gvr example_canonicalize
            example_view = Inr (view1, shuffle example_shuffle_op, True)"
    and shape: "view1 = example_view\<lparr>input_mapping_' :=
                (let m = input_mapping_' example_view;
                     m1 = (if True then m[0 := m ! 1, 1 := m ! 0] else m)
                 in if True then m1[1 := m1 ! 0] else m1)\<rparr>"
    and r0: "input view1 0 = Inr (if True then Op 11 else Op 10)"
    and r1: "input view1 1 = Inr (if True then (if True then Op 11 else Op 10)
                                  else if True then Op 10 else Op 11)"
    by blast
  from shape have view1: "view1 = example_view\<lparr>input_mapping_' := [1, 1]\<rparr>"
    by (simp add: example_view_def)
  from made in0 in1 run r0 r1 show ?thesis
    unfolding view1 by simp
qed

text \<open>
  Claim C9 as stated fails: on the view of a shuffle with two inputs, the instantiation
  for 256-bit vectors, which compiles, fails its assertion and canonicalizes nothing.
\<close>

theorem CanonicalizeShuffle_Simd256_counterexample:
  "instantiable kSimd256Size kSimd256Size
   \<and> input example_view 0 = Inr (Op 10) \<and> input example_view 1 = Inr (Op 11)
   \<and> CanonicalizeShuffle kSimd256Size kSimd256Size (\<lambda>n. int (example_ordinal n))
        example_canonicalize example_view = Inl DcheckFailed"
proof -
  have "instantiable kSimd256Size kSimd256Size"
    by (simp add: instantiable_def kSimd256Size_def kSimd128Size_def)
  moreover have "input example_view 0 = Inr (Op 10)"
    by (simp add: input_def op_input_def input_count_def example_view_def
        example_shuffle_op_def)
  moreover have "input example_view 1 = Inr (Op 11)"
    by (simp add: input_def op_input_def input_count_def example_view_def
        example_shuffle_op_def)
  moreover have "CanonicalizeShuffle kSimd256Size kSimd256Size (\<lambda>n. int (example_ordinal n))
      example_canonicalize example_view = Inl DcheckFailed"
    by (rule CanonicalizeShuffle_Simd256)
  ultimately show ?thesis
    by blast
qed

end
